theory Spec2Isabelle
  imports Main "HOL-Library.Word" "HOL-Library.AList"
begin

section \<open>Common types\<close>

text \<open>
  Go's \<open>int\<close> is a 64-bit two's complement integer on the platforms the herder runs on:
  \<open>+\<close> and \<open>-\<close> wrap around, comparisons read the value with \<open>sint\<close>.
\<close>

type_synonym goint = "64 word"

text \<open>
  Go's \<open>error\<close> values. \<open>Errorf\<close> carries the formatted message of a \<open>fmt.Errorf\<close>
  call of the source; the other constructors are the errors of the libraries the source
  calls: the key-value store (bucket and key errors), \<open>strconv\<close> (\<open>NumError\<close>, which
  stands for both its syntax and its range error) and the container runtime, HTTP client
  and file system (\<open>ExternalError\<close>, with whatever text the library reports).
\<close>

datatype error =
    Errorf string
  | ErrBucketExists
  | ErrBucketNameRequired
  | ErrKeyRequired
  | ErrKeyTooLarge
  | ErrValueTooLarge
  | NumError string
  | ExternalError string

section \<open>Decimal conversion (strconv)\<close>

definition digit_char :: "nat \<Rightarrow> char" where
  "digit_char d = ''0123456789'' ! d"

fun FormatUint :: "nat \<Rightarrow> string" where
  "FormatUint n =
     (if n < 10 then [digit_char n] else FormatUint (n div 10) @ [digit_char (n mod 10)])"

declare FormatUint.simps [simp del]

text \<open>\<open>strconv.Itoa\<close>: the decimal text of a signed integer, with a leading minus sign
  for a negative one.\<close>

definition Itoa :: "goint \<Rightarrow> string" where
  "Itoa i =
     (if sint i < 0 then CHR ''-'' # FormatUint (nat (- sint i))
      else FormatUint (nat (sint i)))"

definition is_digit :: "char \<Rightarrow> bool" where
  "is_digit c = (48 \<le> (of_char c :: nat) \<and> (of_char c :: nat) \<le> 57)"

fun ParseUint :: "string \<Rightarrow> nat \<Rightarrow> nat option" where
  "ParseUint [] acc = Some acc"
| "ParseUint (c # cs) acc =
     (if is_digit c then ParseUint cs (acc * 10 + (of_char c - 48)) else None)"

text \<open>\<open>strconv.Atoi\<close>: an optional sign, then at least one decimal digit and nothing
  else; the value must fit Go's \<open>int\<close>.\<close>

definition Atoi :: "string \<Rightarrow> error + goint" where
  "Atoi s =
     (let neg = (s \<noteq> [] \<and> hd s = CHR ''-'');
          ds = (if s \<noteq> [] \<and> (hd s = CHR ''-'' \<or> hd s = CHR ''+'') then tl s else s)
      in if ds = [] then Inl (NumError s)
         else (case ParseUint ds 0 of
                 None \<Rightarrow> Inl (NumError s)
               | Some n \<Rightarrow>
                   (let v = (if neg then - int n else int n)
                    in if - (2 ^ 63) \<le> v \<and> v < 2 ^ 63 then Inr (word_of_int v)
                       else Inl (NumError s))))"

section \<open>The embedded key-value store (bolt)\<close>

text \<open>
  The store holds named buckets, a bucket holds byte strings under byte-string keys.
  A transaction body works on its own copy of the store; \<open>Update\<close> commits that copy
  when the body returns no error and discards it (rolls back) otherwise, \<open>View\<close> never
  commits.
\<close>

type_synonym bucket = "string \<rightharpoonup> string"
type_synonym boltdb = "string \<rightharpoonup> bucket"

definition MaxKeySize :: nat where
  "MaxKeySize = 32768"

definition MaxValueSize :: nat where
  "MaxValueSize = 2147483646"

definition CreateBucket :: "string \<Rightarrow> boltdb \<Rightarrow> (error + bucket) \<times> boltdb" where
  "CreateBucket name tx =
     (if name = [] then (Inl ErrBucketNameRequired, tx)
      else if tx name \<noteq> None then (Inl ErrBucketExists, tx)
      else (Inr Map.empty, tx(name \<mapsto> Map.empty)))"

definition Put :: "string \<Rightarrow> string \<Rightarrow> bucket \<Rightarrow> error + bucket" where
  "Put key val b =
     (if key = [] then Inl ErrKeyRequired
      else if MaxKeySize < length key then Inl ErrKeyTooLarge
      else if MaxValueSize < length val then Inl ErrValueTooLarge
      else Inr (b(key \<mapsto> val)))"

definition Update :: "(boltdb \<Rightarrow> error option \<times> boltdb) \<Rightarrow> boltdb \<Rightarrow> error option \<times> boltdb" where
  "Update fn db =
     (case fn db of
        (None, tx) \<Rightarrow> (None, tx)
      | (Some err, tx) \<Rightarrow> (Some err, db))"

definition View :: "(boltdb \<Rightarrow> error option \<times> 'a) \<Rightarrow> boltdb \<Rightarrow> error option \<times> 'a" where
  "View fn db = fn db"

section \<open>The usage ledger (metering/meter.go)\<close>

record Meter =
  ID :: string

text \<open>
  The body of the transaction of \<open>NewMeter\<close>. The bucket is written only when
  \<open>CreateBucket\<close> returns no error; the results of both \<open>Put\<close> calls are dropped and the
  body always returns \<open>nil\<close>.
\<close>

definition NewMeter_tx :: "string \<Rightarrow> goint \<Rightarrow> boltdb \<Rightarrow> error option \<times> boltdb" where
  "NewMeter_tx ident remainingMs tx =
     (case CreateBucket ident tx of
        (Inr b, tx1) \<Rightarrow>
          (let b1 = (case Put ''MillisecondsRemaining'' (Itoa remainingMs) b of
                       Inl _ \<Rightarrow> b | Inr b' \<Rightarrow> b');
               b2 = (case Put ''MillisecondsUsed'' ''0'' b1 of
                       Inl _ \<Rightarrow> b1 | Inr b' \<Rightarrow> b')
           in (None, tx1(ident \<mapsto> b2)))
      | (Inl _, tx1) \<Rightarrow> (None, tx1))"

text \<open>\<open>NewMeter\<close> returns the pair \<open>(*Meter, error)\<close> of the source and the store.\<close>

definition NewMeter :: "string \<Rightarrow> goint \<Rightarrow> boltdb \<Rightarrow> (Meter option \<times> error option) \<times> boltdb" where
  "NewMeter ident remainingMs db =
     (case Update (NewMeter_tx ident remainingMs) db of
        (Some err, db') \<Rightarrow> ((None, Some err), db')
      | (None, db') \<Rightarrow> ((Some \<lparr>ID = ident\<rparr>, None), db'))"

text \<open>
  The body of the read transaction of \<open>MillisecondsRemaining\<close>, returning its error and
  the captured variable \<open>msr\<close> (initially 0). Its last statement, reached on every path
  that has not already returned a conversion error, returns the error
  "Could not get time remaining".
\<close>

definition MillisecondsRemaining_tx :: "string \<Rightarrow> boltdb \<Rightarrow> error option \<times> goint" where
  "MillisecondsRemaining_tx ident tx =
     (case tx ident of
        Some b \<Rightarrow>
          (case b ''MillisecondsRemaining'' of
             Some res \<Rightarrow>
               (case Atoi res of
                  Inl err \<Rightarrow> (Some err, 0)
                | Inr ms \<Rightarrow> (Some (Errorf ''Could not get time remaining''), ms))
           | None \<Rightarrow> (Some (Errorf ''Could not get time remaining''), 0))
      | None \<Rightarrow> (Some (Errorf ''Could not get time remaining''), 0))"

definition MillisecondsRemaining :: "Meter \<Rightarrow> boltdb \<Rightarrow> goint \<times> error option" where
  "MillisecondsRemaining m db =
     (case View (MillisecondsRemaining_tx (ID m)) db of
        (Some err, msr) \<Rightarrow> (0, Some err)
      | (None, msr) \<Rightarrow> (msr, None))"

text \<open>
  The body of the transaction of \<open>RecordMilliseconds\<close>, returning its error and the
  transaction's copy of the store. A missing field reads as 0. When the second \<open>Put\<close>
  fails the copy already holds the first one.
\<close>

definition RecordMilliseconds_tx :: "string \<Rightarrow> goint \<Rightarrow> boltdb \<Rightarrow> error option \<times> boltdb" where
  "RecordMilliseconds_tx ident ms tx =
     (case tx ident of
        None \<Rightarrow> (Some (Errorf ''Could not update for given id''), tx)
      | Some b \<Rightarrow>
          (case (case b ''MillisecondsRemaining'' of None \<Rightarrow> Inr 0 | Some res \<Rightarrow> Atoi res) of
             Inl err \<Rightarrow> (Some err, tx)
           | Inr remaining \<Rightarrow>
               if sint remaining \<le> 0
               then (Some (Errorf ''Could not record time - no time left''), tx)
               else
                 (case (case b ''MillisecondsUsed'' of None \<Rightarrow> Inr 0 | Some res \<Rightarrow> Atoi res) of
                    Inl err \<Rightarrow> (Some err, tx)
                  | Inr used \<Rightarrow>
                      (case Put ''MillisecondsRemaining'' (Itoa (remaining - ms)) b of
                         Inl err \<Rightarrow> (Some err, tx)
                       | Inr b1 \<Rightarrow>
                           (case Put ''MillisecondsUsed'' (Itoa (used + ms)) b1 of
                              Inl err \<Rightarrow> (Some err, tx(ident \<mapsto> b1))
                            | Inr b2 \<Rightarrow> (None, tx(ident \<mapsto> b2)))))))"

definition RecordMilliseconds :: "Meter \<Rightarrow> goint \<Rightarrow> boltdb \<Rightarrow> error option \<times> boltdb" where
  "RecordMilliseconds m ms db = Update (RecordMilliseconds_tx (ID m) ms) db"

record Status =
  Status_MillisecondsRemaining :: goint

definition Inspect :: "Meter \<Rightarrow> boltdb \<Rightarrow> Status option \<times> error option" where
  "Inspect m db =
     (case MillisecondsRemaining m db of
        (msr, Some err) \<Rightarrow> (None, Some err)
      | (msr, None) \<Rightarrow> (Some \<lparr>Status_MillisecondsRemaining = msr\<rparr>, None))"

text \<open>The bytes stored in a field of an identity's ledger entry, if there are any.\<close>

definition stored :: "boltdb \<Rightarrow> string \<Rightarrow> string \<Rightarrow> string option" where
  "stored db ident key = (case db ident of None \<Rightarrow> None | Some b \<Rightarrow> b key)"

text \<open>The integer those bytes stand for, when they are the decimal text of one.\<close>

definition balance :: "boltdb \<Rightarrow> string \<Rightarrow> string \<Rightarrow> goint option" where
  "balance db ident key =
     (case stored db ident key of
        None \<Rightarrow> None
      | Some res \<Rightarrow> (case Atoi res of Inl _ \<Rightarrow> None | Inr v \<Rightarrow> Some v))"

section \<open>The container orchestrator (package container)\<close>

text \<open>
  A Go map that the source builds or ranges over is a list of key/value pairs with one
  pair for each key: \<open>m[k] = v\<close> is \<open>AList.update k v m\<close>, a map literal is the
  sequence of its assignments, a lookup is \<open>map_of\<close>, and \<open>range\<close> visits the pairs in
  the order of the list. Go fixes no order for \<open>range\<close>; the properties below hold for
  every list, hence for every order.
\<close>

type_synonym ('k, 'v) gomap = "('k \<times> 'v) list"

text \<open>
  The runtime's container descriptor (\<open>docker.APIContainers\<close>), the handle of a created
  or inspected container (\<open>docker.Container\<close>, with its \<open>State.Running\<close>) and the options
  of a creation request (the fields of \<open>Config\<close> and \<open>HostConfig\<close> that \<open>run\<close> sets).
\<close>

record APIContainers =
  APIContainers_ID :: string
  Names :: "string list"
  Labels :: "(string, string) gomap"
  State :: string

record Container =
  Container_ID :: string
  Running :: bool

record Mount =
  Source :: string
  Destination :: string

record PortBinding =
  HostIP :: string
  HostPort :: string

record CreateContainerOptions =
  Name :: string
  Image :: string
  Config_Labels :: "(string, string) gomap"
  ExposedPorts :: "(string, unit) gomap"
  Mounts :: "Mount list"
  AttachStdout :: bool
  AttachStderr :: bool
  AttachStdin :: bool
  OpenStdin :: bool
  Tty :: bool
  PortBindings :: "(string, PortBinding list) gomap"
  Binds :: "string list"

text \<open>
  The container runtime is outside the program. The calls the program makes to it are
  recorded, in order, in a list that is the state of the model (\<open>RemoveContainer\<close>
  carries the identifier and the \<open>Force\<close> and \<open>RemoveVolumes\<close> flags); the runtime's
  answer to a call is a function of the calls made so far, the last of them being the
  call answered. A call answers with an error or with its result, never with both.
  \<open>NewClientFromEnv\<close> is the error of constructing a client, if any. Every property
  below holds for every such runtime. Log output of the orchestrator is not modelled.
\<close>

datatype call =
    PullImage string string
  | CreateContainer CreateContainerOptions
  | ListContainers bool
  | StartContainer string
  | InspectContainer string
  | KillContainer string
  | RemoveContainer string bool bool

record docker =
  NewClientFromEnv :: "error option"
  PullImage_result :: "call list \<Rightarrow> error option"
  CreateContainer_result :: "call list \<Rightarrow> error + Container"
  ListContainers_result :: "call list \<Rightarrow> error + APIContainers list"
  StartContainer_result :: "call list \<Rightarrow> error option"
  InspectContainer_result :: "call list \<Rightarrow> error + Container"
  KillContainer_result :: "call list \<Rightarrow> error option"
  RemoveContainer_result :: "call list \<Rightarrow> error option"

text \<open>\<open>List\<close>; its first argument says whether a client was passed (\<open>client != nil\<close>).\<close>

definition List ::
  "docker \<Rightarrow> bool \<Rightarrow> (APIContainers \<Rightarrow> bool) \<Rightarrow> bool \<Rightarrow> call list
   \<Rightarrow> (APIContainers list \<times> error option) \<times> call list" where
  "List d client matches all h =
     (case (if client then None else NewClientFromEnv d) of
        Some err \<Rightarrow> (([], Some err), h)
      | None \<Rightarrow>
          (let h1 = h @ [ListContainers all]
           in case ListContainers_result d h1 of
                Inl err \<Rightarrow> (([], Some err), h1)
              | Inr containers \<Rightarrow> ((filter matches containers, None), h1)))"

definition And :: "(APIContainers \<Rightarrow> bool) \<Rightarrow> (APIContainers \<Rightarrow> bool) \<Rightarrow> APIContainers \<Rightarrow> bool" where
  "And a b container = (a container \<and> b container)"

definition Or :: "(APIContainers \<Rightarrow> bool) \<Rightarrow> (APIContainers \<Rightarrow> bool) \<Rightarrow> APIContainers \<Rightarrow> bool" where
  "Or a b container = (a container \<or> b container)"

definition WithID :: "string \<Rightarrow> APIContainers \<Rightarrow> bool" where
  "WithID ident container = (APIContainers_ID container = ident)"

fun WithName_loop :: "string \<Rightarrow> string list \<Rightarrow> bool" where
  "WithName_loop name [] = False"
| "WithName_loop name (containerName # rest) =
     (if containerName = ''/'' @ name then True else WithName_loop name rest)"

definition WithName :: "string \<Rightarrow> APIContainers \<Rightarrow> bool" where
  "WithName name container = WithName_loop name (Names container)"

definition WithLabel :: "string \<Rightarrow> string \<Rightarrow> APIContainers \<Rightarrow> bool" where
  "WithLabel label val container =
     (case map_of (Labels container) label of
        Some labelValue \<Rightarrow> val = labelValue
      | None \<Rightarrow> False)"

definition WithState :: "string \<Rightarrow> APIContainers \<Rightarrow> bool" where
  "WithState state container = (State container = state)"

definition Kill ::
  "docker \<Rightarrow> (APIContainers \<Rightarrow> bool) \<Rightarrow> bool \<Rightarrow> bool \<Rightarrow> call list \<Rightarrow> error option \<times> call list" where
  "Kill d matcher removeContainer destroyData h =
     (case NewClientFromEnv d of
        Some err \<Rightarrow> (Some err, h)
      | None \<Rightarrow>
          (case List d True matcher False h of
             ((containers, Some err), h1) \<Rightarrow> (Some err, h1)
           | ((containers, None), h1) \<Rightarrow>
               if length containers \<noteq> 1
               then (Some (Errorf (''Expected 1 container to match name, got ''
                                    @ FormatUint (length containers))), h1)
               else
                 (let h2 = h1 @ [KillContainer (APIContainers_ID (containers ! 0))]
                  in case KillContainer_result d h2 of
                       Some err \<Rightarrow> (Some err, h2)
                     | None \<Rightarrow>
                         if removeContainer
                         then
                           (let h3 = h2 @ [RemoveContainer (APIContainers_ID (containers ! 0))
                                             True destroyData]
                            in case RemoveContainer_result d h3 of
                                 Some err \<Rightarrow> (Some err, h3)
                               | None \<Rightarrow> (None, h3))
                         else (None, h2))))"

text \<open>
  \<open>run\<close>, in four parts: the two loops that translate the mount map and the port map,
  the creation options, and the part from \<open>StartContainer\<close> on (\<open>run_start\<close>), which
  receives the variable \<open>container\<close> (\<open>nil\<close> when creation failed) and the resolved
  \<open>containerID\<close>. Both callers of \<open>run\<close> pass the client they have just constructed,
  so \<open>run\<close> calls \<open>List\<close> with a client.
\<close>

definition run_mounts :: "(string, string) gomap \<Rightarrow> Mount list \<times> string list" where
  "run_mounts mounts =
     fold (\<lambda>(s, d) (ms, binds).
             (ms @ [\<lparr>Source = s, Destination = d\<rparr>], binds @ [s @ '':'' @ d]))
       mounts ([], [])"

definition run_ports ::
  "(goint, goint) gomap \<Rightarrow> (string, unit) gomap \<times> (string, PortBinding list) gomap" where
  "run_ports ports =
     fold (\<lambda>(outsidePort, insidePort) (exposedPorts, portBindings).
             (let insidePortTCP = Itoa insidePort @ ''/tcp''
              in (AList.update insidePortTCP () exposedPorts,
                  AList.update insidePortTCP
                    [\<lparr>HostIP = ''0.0.0.0'', HostPort = Itoa outsidePort\<rparr>] portBindings)))
       ports ([], [])"

definition run_start ::
  "docker \<Rightarrow> Container option \<Rightarrow> string \<Rightarrow> call list
   \<Rightarrow> (Container option \<times> error option) \<times> call list" where
  "run_start d container containerID h =
     (let h1 = h @ [StartContainer containerID]
      in case StartContainer_result d h1 of
           Some err \<Rightarrow> ((None, Some err), h1)
         | None \<Rightarrow>
             (let h2 = h1 @ [InspectContainer containerID]
              in case InspectContainer_result d h2 of
                   Inl err \<Rightarrow> ((container, None), h2)
                 | Inr c \<Rightarrow> ((Some c, None), h2)))"

definition run_options ::
  "string \<Rightarrow> string \<Rightarrow> string \<Rightarrow> (goint, goint) gomap \<Rightarrow> (string, string) gomap
   \<Rightarrow> (string, string) gomap \<Rightarrow> CreateContainerOptions" where
  "run_options name repository tag ports mounts labels =
     (let (ms, binds) = run_mounts mounts;
          (exposedPorts, portBindings) = run_ports ports
      in \<lparr>Name = name,
          Image = repository @ '':'' @ tag,
          Config_Labels = labels,
          ExposedPorts = exposedPorts,
          Mounts = ms,
          AttachStdout = True,
          AttachStderr = True,
          AttachStdin = True,
          OpenStdin = True,
          Tty = True,
          PortBindings = portBindings,
          Binds = binds\<rparr>)"

definition run ::
  "docker \<Rightarrow> string \<Rightarrow> string \<Rightarrow> string \<Rightarrow> (goint, goint) gomap \<Rightarrow> (string, string) gomap
   \<Rightarrow> (string, string) gomap \<Rightarrow> bool \<Rightarrow> call list
   \<Rightarrow> (Container option \<times> error option) \<times> call list" where
  "run d name repository tag ports mounts labels restart h =
     (let h1 = h @ [PullImage repository tag]
      in case PullImage_result d h1 of
           Some err \<Rightarrow> ((None, Some err), h1)
         | None \<Rightarrow>
             (let h2 = h1 @ [CreateContainer (run_options name repository tag ports mounts labels)]
              in case CreateContainer_result d h2 of
                   Inl err \<Rightarrow>
                     if \<not> restart then ((None, Some err), h2)
                     else
                       (case List d True (WithName name) True h2 of
                          ((containers, Some err'), h3) \<Rightarrow> ((None, Some err'), h3)
                        | ((containers, None), h3) \<Rightarrow>
                            if length containers \<noteq> 1
                            then ((None, Some (Errorf
                                    (''Could not create nor find container with name '' @ name))), h3)
                            else run_start d None (APIContainers_ID (containers ! 0)) h3)
                 | Inr container \<Rightarrow> run_start d (Some container) (Container_ID container) h2))"

section \<open>The file loader and the daemonized run\<close>

text \<open>
  A function of the source either returns or dereferences a nil pointer, which panics;
  a panic in a goroutine that nothing recovers ends the whole process.
\<close>

datatype 'a outcome = Returned 'a | Panicked

datatype level = Info | Warn

text \<open>
  The host outside the program: \<open>url_Parse\<close> is \<open>url.Parse\<close> (\<open>None\<close> for an error)
  with the two results the source reads from the parsed URL, \<open>NewRequest_error\<close> the
  error of \<open>http.NewRequest\<close> for a URL (the request is \<open>nil\<close> then), \<open>Do\<close> the pair
  \<open>(response, err)\<close> of \<open>http.DefaultClient.Do\<close> (the response is \<open>nil\<close> when the
  request could not be carried out), \<open>Body\<close> what \<open>ioutil.ReadAll\<close> returns for the
  response body, \<open>WriteFile_error\<close> and \<open>MkdirAll_error\<close> the error of writing a file or
  creating a directory at a path, \<open>Join\<close> is \<open>path.Join\<close> (and \<open>filepath.Join\<close>, the same
  function on the host), \<open>viper_mounts\<close> the configured mounts root. The state of the host is the content of its files and the lines logged
  by the file loader.
\<close>

record url =
  url_String :: string
  url_Hostname :: string

record request =
  request_URL :: string
  BasicAuth :: "(string \<times> string) option"

record response =
  Body :: "string \<times> error option"

record host_env =
  url_Parse :: "string \<Rightarrow> url option"
  NewRequest_error :: "string \<Rightarrow> error option"
  Do :: "request \<Rightarrow> response option \<times> error option"
  WriteFile_error :: "string \<Rightarrow> error option"
  MkdirAll_error :: "string \<Rightarrow> error option"
  Join :: "string \<Rightarrow> string \<Rightarrow> string"
  viper_mounts :: string

record host =
  files :: "string \<rightharpoonup> string"
  logged :: "(level \<times> string) list"

definition logline :: "level \<Rightarrow> string \<Rightarrow> host \<Rightarrow> host" where
  "logline l msg s = s\<lparr>logged := logged s @ [(l, msg)]\<rparr>"

definition WriteFile :: "host_env \<Rightarrow> string \<Rightarrow> string \<Rightarrow> host \<Rightarrow> error option \<times> host" where
  "WriteFile env filename data s =
     (case WriteFile_error env filename of
        Some err \<Rightarrow> (Some err, s)
      | None \<Rightarrow> (None, s\<lparr>files := (files s)(filename \<mapsto> data)\<rparr>))"

definition HasPrefix :: "string \<Rightarrow> string \<Rightarrow> bool" where
  "HasPrefix s p = (take (length p) s = p)"

text \<open>
  The goroutine that \<open>LoadFiles\<close> starts for an entry whose content is a URL. After a
  failed \<open>NewRequest\<close> the nil request is dereferenced (by \<open>SetBasicAuth\<close> or by \<open>Do\<close>);
  after \<open>Do\<close> the statement \<open>defer response.Body.Close()\<close> reads \<open>response.Body\<close>,
  whatever \<open>err\<close> was.
\<close>

definition LoadFiles_fetch :: "host_env \<Rightarrow> string \<Rightarrow> string \<Rightarrow> url \<Rightarrow> host \<Rightarrow> unit outcome \<times> host" where
  "LoadFiles_fetch env dir name u s =
     (case NewRequest_error env (url_String u) of
        Some err \<Rightarrow> (Panicked, logline Warn ''Could not create request'' s)
      | None \<Rightarrow>
          (let request = \<lparr>request_URL = url_String u,
                          BasicAuth = (if url_Hostname u = ''webstrates.cs.au.dk''
                                          \<or> url_Hostname u = ''hiraku.cs.au.dk''
                                       then Some (''web'', ''strate'') else None)\<rparr>
           in case Do env request of
                (response, err) \<Rightarrow>
                  (let s1 = (if err \<noteq> None
                             then logline Warn ''Could not GET content to store in container'' s
                             else s)
                   in case response of
                        None \<Rightarrow> (Panicked, s1)
                      | Some resp \<Rightarrow>
                          (case Body resp of
                             (fetchedContent, rerr) \<Rightarrow>
                               (let s2 = (if rerr \<noteq> None then logline Warn ''Error getting body'' s1
                                          else s1);
                                    s3 = logline Info ''Writing fetched content to tmp dir'' s2
                                in case WriteFile env (Join env dir name) fetchedContent s3 of
                                     (Some werr, s4) \<Rightarrow>
                                       (Returned (), logline Warn ''Could not write file to tmp dir'' s4)
                                   | (None, s4) \<Rightarrow> (Returned (), s4))))))"

text \<open>
  The test that decides whether an entry is fetched (\<open>url.Parse\<close> returns no error
  and the content starts with "http"), the loop of \<open>LoadFiles\<close> over the entries,
  collecting the goroutines it starts, and the goroutines themselves. The model runs them in the order they were started once
  the loop has ended, by \<open>wg.Wait()\<close> or by the early return; each touches only its own
  file and the log, so another schedule changes the order of the log lines and what has
  been written when a goroutine panics, and nothing else.
\<close>

definition LoadFiles_url :: "host_env \<Rightarrow> string \<Rightarrow> url option" where
  "LoadFiles_url env content =
     (case url_Parse env content of
        Some u \<Rightarrow> if HasPrefix content ''http'' then Some u else None
      | None \<Rightarrow> None)"

fun LoadFiles_loop ::
  "host_env \<Rightarrow> string \<Rightarrow> (string, string) gomap \<Rightarrow> (string \<times> url) list \<Rightarrow> host
   \<Rightarrow> (error option \<times> (string \<times> url) list) \<times> host" where
  "LoadFiles_loop env dir [] started s = ((None, started), s)"
| "LoadFiles_loop env dir ((name, content) # rest) started s =
     (case LoadFiles_url env content of
        Some u \<Rightarrow> LoadFiles_loop env dir rest (started @ [(name, u)]) s
      | None \<Rightarrow>
          (case WriteFile env (Join env dir name) content
                  (logline Info ''Writing provided content to tmp dir'' s) of
             (Some err, s1) \<Rightarrow>
               ((Some err, started), logline Warn ''Could not write file to tmp dir'' s1)
           | (None, s1) \<Rightarrow> LoadFiles_loop env dir rest started s1))"

fun LoadFiles_goroutines ::
  "host_env \<Rightarrow> string \<Rightarrow> (string \<times> url) list \<Rightarrow> host \<Rightarrow> unit outcome \<times> host" where
  "LoadFiles_goroutines env dir [] s = (Returned (), s)"
| "LoadFiles_goroutines env dir ((name, u) # rest) s =
     (case LoadFiles_fetch env dir name u s of
        (Panicked, s1) \<Rightarrow> (Panicked, s1)
      | (Returned _, s1) \<Rightarrow> LoadFiles_goroutines env dir rest s1)"

definition LoadFiles ::
  "host_env \<Rightarrow> string \<Rightarrow> (string, string) gomap \<Rightarrow> host \<Rightarrow> error option outcome \<times> host" where
  "LoadFiles env dir fs s =
     (case LoadFiles_loop env dir fs [] s of
        ((err, started), s1) \<Rightarrow>
          (case LoadFiles_goroutines env dir started s1 of
             (Panicked, s2) \<Rightarrow> (Panicked, s2)
           | (Returned _, s2) \<Rightarrow> (Returned err, s2)))"

text \<open>
  \<open>RunDaemonized\<close> up to the return of \<open>run\<close>; the monitor and the log streaming it
  starts afterwards are goroutines and are not modelled. \<open>RunDaemonized_mounts\<close> is its
  map literal, whose two entries have the same key \<open>hostdir\<close>.
\<close>

definition RunDaemonized_mounts :: "string \<Rightarrow> string \<Rightarrow> (string, string) gomap" where
  "RunDaemonized_mounts hostdir name =
     AList.update hostdir ''/minion'' (AList.update hostdir (''/'' @ name) [])"

definition RunDaemonized ::
  "docker \<Rightarrow> host_env \<Rightarrow> string \<Rightarrow> string \<Rightarrow> string \<Rightarrow> (goint, goint) gomap
   \<Rightarrow> (string, string) gomap \<Rightarrow> (string, string) gomap \<Rightarrow> bool \<Rightarrow> host \<times> call list
   \<Rightarrow> (Container option \<times> error option) outcome \<times> host \<times> call list" where
  "RunDaemonized d env name repository tag ports fs labels restart sh =
     (case sh of
        (s, h) \<Rightarrow>
          (case NewClientFromEnv d of
             Some err \<Rightarrow> (Returned (None, Some err), s, h)
           | None \<Rightarrow>
               (let hostdir = Join env (viper_mounts env) name
                in case MkdirAll_error env hostdir of
                     Some err \<Rightarrow> (Returned (None, Some err), s, h)
                   | None \<Rightarrow>
                       (let mounts = RunDaemonized_mounts hostdir name
                        in case LoadFiles env hostdir fs s of
                             (Panicked, s1) \<Rightarrow> (Panicked, s1, h)
                           | (Returned (Some err), s1) \<Rightarrow> (Returned (None, Some err), s1, h)
                           | (Returned None, s1) \<Rightarrow>
                               (case run d name repository tag ports mounts labels restart h of
                                  ((c, Some err), h1) \<Rightarrow> (Returned (None, Some err), s1, h1)
                                | ((c, None), h1) \<Rightarrow> (Returned (c, None), s1, h1))))))"

section \<open>Example inputs\<close>

text \<open>
  Concrete inputs at which the properties below are evaluated: two container descriptors
  (the second one's name merely starts with the first one's), a runtime whose answers do
  not depend on the calls made before, and a host whose URL parser accepts every text,
  whose file system accepts every write and whose HTTP client is a parameter.
\<close>

definition golem_container :: APIContainers where
  "golem_container =
     \<lparr>APIContainers_ID = ''abc123'', Names = [''/golem''], Labels = [(''subject'', ''golem'')],
      State = ''running''\<rparr>"

definition other_container :: APIContainers where
  "other_container =
     \<lparr>APIContainers_ID = ''def456'', Names = [''/golem-2''], Labels = [],
      State = ''running''\<rparr>"

definition fixed_docker ::
  "(error + Container) \<Rightarrow> APIContainers list \<Rightarrow> (error + Container) \<Rightarrow> docker" where
  "fixed_docker created listed inspected =
     \<lparr>NewClientFromEnv = None,
      PullImage_result = (\<lambda>h. None),
      CreateContainer_result = (\<lambda>h. created),
      ListContainers_result = (\<lambda>h. Inr listed),
      StartContainer_result = (\<lambda>h. None),
      InspectContainer_result = (\<lambda>h. inspected),
      KillContainer_result = (\<lambda>h. None),
      RemoveContainer_result = (\<lambda>h. None)\<rparr>"

definition example_env :: "(request \<Rightarrow> response option \<times> error option) \<Rightarrow> host_env" where
  "example_env do =
     \<lparr>url_Parse = (\<lambda>c. Some \<lparr>url_String = c, url_Hostname = ''example''\<rparr>),
      NewRequest_error = (\<lambda>u. None),
      Do = do,
      WriteFile_error = (\<lambda>p. None),
      MkdirAll_error = (\<lambda>p. None),
      Join = (\<lambda>dir name. dir @ ''/'' @ name),
      viper_mounts = ''/mounts''\<rparr>"

section \<open>Properties of the decimal conversion\<close>

lemma digit_char_is_digit: "d < 10 \<Longrightarrow> is_digit (digit_char d)"
proof -
  assume "d < 10"
  then have "d \<in> {0, 1, 2, 3, 4, 5, 6, 7, 8, 9}" by auto
  then show ?thesis by (auto simp: digit_char_def is_digit_def)
qed

lemma digit_char_val: "d < 10 \<Longrightarrow> (of_char (digit_char d) :: nat) - 48 = d"
proof -
  assume "d < 10"
  then have "d \<in> {0, 1, 2, 3, 4, 5, 6, 7, 8, 9}" by auto
  then show ?thesis by (auto simp: digit_char_def)
qed

lemma ParseUint_append:
  "ParseUint (xs @ ys) acc = (case ParseUint xs acc of None \<Rightarrow> None | Some a \<Rightarrow> ParseUint ys a)"
  by (induction xs arbitrary: acc) auto

lemma ParseUint_FormatUint: "ParseUint (FormatUint n) 0 = Some n"
proof (induction n rule: FormatUint.induct)
  case (1 n)
  show ?case
  proof (cases "n < 10")
    case True
    then show ?thesis
      by (simp add: FormatUint.simps [of n] digit_char_is_digit digit_char_val)
  next
    case False
    with 1 have ih: "ParseUint (FormatUint (n div 10)) 0 = Some (n div 10)" by simp
    have "n mod 10 < 10" by simp
    then show ?thesis using False ih
      by (simp add: FormatUint.simps [of n] ParseUint_append digit_char_is_digit digit_char_val)
  qed
qed

lemma FormatUint_nonempty: "FormatUint n \<noteq> []"
  by (simp add: FormatUint.simps [of n])

lemma FormatUint_hd: "hd (FormatUint n) \<noteq> CHR ''-'' \<and> hd (FormatUint n) \<noteq> CHR ''+''"
proof (induction n rule: FormatUint.induct)
  case (1 n)
  show ?case
  proof (cases "n < 10")
    case True
    then have "n \<in> {0, 1, 2, 3, 4, 5, 6, 7, 8, 9}" by auto
    then show ?thesis by (auto simp: FormatUint.simps [of n] digit_char_def)
  next
    case False
    with 1 show ?thesis by (simp add: FormatUint.simps [of n] FormatUint_nonempty)
  qed
qed

lemma FormatUint_length: "n < 10 ^ k \<Longrightarrow> 0 < k \<Longrightarrow> length (FormatUint n) \<le> k"
proof (induction n arbitrary: k rule: FormatUint.induct)
  case (1 n)
  show ?case
  proof (cases "n < 10")
    case True
    then show ?thesis using 1(3) by (simp add: FormatUint.simps [of n])
  next
    case False
    then obtain j where k: "k = Suc j" and j: "0 < j" using 1(2,3)
      by (cases k; cases "k - 1") auto
    have "n div 10 < 10 ^ j" using 1(2) k by (simp add: less_mult_imp_div_less mult.commute)
    with 1(1) False j have "length (FormatUint (n div 10)) \<le> j" by simp
    then show ?thesis using False k by (simp add: FormatUint.simps [of n])
  qed
qed

lemma Atoi_Itoa: "Atoi (Itoa w) = Inr w"
proof (cases "sint w < 0")
  case True
  have lo: "- (2 ^ 63) \<le> sint w" using sint_ge [of w] by simp
  have v: "- int (nat (- sint w)) = sint w" using True by simp
  show ?thesis using True lo
    by (simp add: Atoi_def Itoa_def ParseUint_FormatUint FormatUint_nonempty v)
next
  case False
  have hi: "sint w < 2 ^ 63" using sint_lt [of w] by simp
  have v: "int (nat (sint w)) = sint w" using False by simp
  show ?thesis using False hi FormatUint_hd [of "nat (sint w)"]
    by (simp add: Atoi_def Itoa_def ParseUint_FormatUint FormatUint_nonempty v)
qed

lemma Itoa_length: "length (Itoa w) \<le> 20"
proof -
  have lo: "- (2 ^ 63) \<le> sint w" using sint_ge [of w] by simp
  have hi: "sint w < 2 ^ 63" using sint_lt [of w] by simp
  have "nat (- sint w) < 10 ^ 19" using lo by simp
  then have a: "length (FormatUint (nat (- sint w))) \<le> 19" by (rule FormatUint_length) simp
  have "nat (sint w) < 10 ^ 19" using hi by simp
  then have b: "length (FormatUint (nat (sint w))) \<le> 19" by (rule FormatUint_length) simp
  show ?thesis using a b by (simp add: Itoa_def)
qed

lemmas eval_dec = Itoa_def Atoi_def is_digit_def FormatUint.simps digit_char_def

section \<open>Properties of the usage ledger\<close>

text \<open>The store accepts the writes of the ledger: its keys and values are short.\<close>

lemma Put_Itoa:
  "key \<noteq> [] \<Longrightarrow> length key \<le> 30 \<Longrightarrow> Put key (Itoa w) b = Inr (b(key \<mapsto> Itoa w))"
  using Itoa_length [of w] by (simp add: Put_def MaxKeySize_def MaxValueSize_def)

text \<open>
  A new identity gets an entry with the given budget and nothing used. The identity
  must not be empty: the store refuses a bucket without a name, and \<open>NewMeter\<close> drops
  that error.
\<close>

lemma NewMeter_fresh:
  "db ident = None \<Longrightarrow> ident \<noteq> [] \<Longrightarrow>
   NewMeter ident remainingMs db =
     ((Some \<lparr>ID = ident\<rparr>, None),
      db(ident \<mapsto> [''MillisecondsRemaining'' \<mapsto> Itoa remainingMs, ''MillisecondsUsed'' \<mapsto> ''0'']))"
  by (simp add: NewMeter_def NewMeter_tx_def Update_def CreateBucket_def Put_Itoa)
    (simp add: Put_def MaxKeySize_def MaxValueSize_def)

text \<open>A failed debit commits nothing, whatever the store holds.\<close>

lemma RecordMilliseconds_rollback:
  "RecordMilliseconds m ms db = (Some err, db') \<Longrightarrow> db' = db"
  by (auto simp: RecordMilliseconds_def Update_def split: prod.splits option.splits)

text \<open>
  Whatever the store holds, a debit commits either nothing or an entry in which both
  fields have been written.
\<close>

lemma RecordMilliseconds_both_or_none:
  "snd (RecordMilliseconds m ms db) = db
   \<or> (\<exists>b r u. db (ID m) = Some b
        \<and> snd (RecordMilliseconds m ms db) =
            db(ID m \<mapsto> b(''MillisecondsRemaining'' \<mapsto> Itoa r, ''MillisecondsUsed'' \<mapsto> Itoa u)))"
proof (cases "fst (RecordMilliseconds m ms db)")
  case (Some err)
  then have "RecordMilliseconds m ms db = (Some err, snd (RecordMilliseconds m ms db))"
    by (simp add: prod_eq_iff)
  then show ?thesis by (simp add: RecordMilliseconds_rollback)
next
  case None
  then show ?thesis
    by (auto simp: RecordMilliseconds_def RecordMilliseconds_tx_def Update_def Put_Itoa
        split: prod.splits option.splits sum.splits if_splits)
qed

lemma RecordMilliseconds_entry:
  assumes "db (ID m) = Some b"
    and "b ''MillisecondsRemaining'' = Some res_r" and "Atoi res_r = Inr remaining"
    and "b ''MillisecondsUsed'' = Some res_u" and "Atoi res_u = Inr used"
  shows "RecordMilliseconds m ms db =
     (if sint remaining \<le> 0
      then (Some (Errorf ''Could not record time - no time left''), db)
      else (None, db(ID m \<mapsto> b(''MillisecondsRemaining'' \<mapsto> Itoa (remaining - ms),
                                 ''MillisecondsUsed'' \<mapsto> Itoa (used + ms)))))"
  using assms
  by (simp add: RecordMilliseconds_def RecordMilliseconds_tx_def Update_def Put_Itoa)

text \<open>
  C1. Let an identity have a ledger entry whose two fields hold the decimal text of the
  integers \<open>remaining\<close> and \<open>used\<close>. When \<open>remaining \<le> 0\<close>, \<open>RecordMilliseconds\<close> returns
  the error "no time left" and the store is unchanged, so that both fields read as before.
  When \<open>remaining > 0\<close> it returns no error and the committed store differs from the old
  one in exactly this entry, whose two fields now hold \<open>remaining - ms\<close> and
  \<open>used + ms\<close> (in Go's wrapping \<open>int\<close> arithmetic): the result of the call is one of
  these two stores, there is none in which one field alone has changed.
\<close>

theorem RecordMilliseconds_debit_or_reject:
  assumes "db (ID m) = Some b"
    and "b ''MillisecondsRemaining'' = Some res_r" and "Atoi res_r = Inr remaining"
    and "b ''MillisecondsUsed'' = Some res_u" and "Atoi res_u = Inr used"
  shows "RecordMilliseconds m ms db =
           (if sint remaining \<le> 0
            then (Some (Errorf ''Could not record time - no time left''), db)
            else (None, db(ID m \<mapsto> b(''MillisecondsRemaining'' \<mapsto> Itoa (remaining - ms),
                                       ''MillisecondsUsed'' \<mapsto> Itoa (used + ms)))))
       \<and> balance (snd (RecordMilliseconds m ms db)) (ID m) ''MillisecondsRemaining'' =
           Some (if sint remaining \<le> 0 then remaining else remaining - ms)
       \<and> balance (snd (RecordMilliseconds m ms db)) (ID m) ''MillisecondsUsed'' =
           Some (if sint remaining \<le> 0 then used else used + ms)"
  using assms RecordMilliseconds_entry [of db m b res_r remaining res_u used ms]
  by (simp add: balance_def stored_def Atoi_Itoa)

theorem RecordMilliseconds_debit_or_reject_witness:
  "RecordMilliseconds \<lparr>ID = ''u1''\<rparr> 200
     [''u1'' \<mapsto> [''MillisecondsRemaining'' \<mapsto> ''1000'', ''MillisecondsUsed'' \<mapsto> ''0'']] =
     (None, [''u1'' \<mapsto> [''MillisecondsRemaining'' \<mapsto> ''800'', ''MillisecondsUsed'' \<mapsto> ''200'']])
   \<and> RecordMilliseconds \<lparr>ID = ''u1''\<rparr> 200
     [''u1'' \<mapsto> [''MillisecondsRemaining'' \<mapsto> ''0'', ''MillisecondsUsed'' \<mapsto> ''7'']] =
     (Some (Errorf ''Could not record time - no time left''),
      [''u1'' \<mapsto> [''MillisecondsRemaining'' \<mapsto> ''0'', ''MillisecondsUsed'' \<mapsto> ''7'']])"
  using RecordMilliseconds_debit_or_reject [of
      "[''u1'' \<mapsto> [''MillisecondsRemaining'' \<mapsto> ''1000'', ''MillisecondsUsed'' \<mapsto> ''0'']]"
      "\<lparr>ID = ''u1''\<rparr>" "[''MillisecondsRemaining'' \<mapsto> ''1000'', ''MillisecondsUsed'' \<mapsto> ''0'']"
      "''1000''" 1000 "''0''" 0 200]
    RecordMilliseconds_debit_or_reject [of
      "[''u1'' \<mapsto> [''MillisecondsRemaining'' \<mapsto> ''0'', ''MillisecondsUsed'' \<mapsto> ''7'']]"
      "\<lparr>ID = ''u1''\<rparr>" "[''MillisecondsRemaining'' \<mapsto> ''0'', ''MillisecondsUsed'' \<mapsto> ''7'']"
      "''0''" 0 "''7''" 7 200]
  by (simp add: eval_dec)

text \<open>
  C2. For a store without an entry for "u1": \<open>NewMeter "u1" 1000\<close> returns a meter;
  \<open>RecordMilliseconds 200\<close> on it succeeds and leaves 800 as the stored remaining balance
  and 200 as the stored used counter; \<open>RecordMilliseconds 900\<close> then succeeds and leaves
  -100 as the stored remaining balance; every further \<open>RecordMilliseconds\<close>, whatever its
  amount, fails with "no time left" and changes nothing.
\<close>

theorem ledger_scenario_u1:
  assumes fresh: "db ''u1'' = None"
  shows "\<exists>m db0 db1 db2.
      NewMeter ''u1'' 1000 db = ((Some m, None), db0)
    \<and> RecordMilliseconds m 200 db0 = (None, db1)
    \<and> stored db1 ''u1'' ''MillisecondsRemaining'' = Some ''800''
    \<and> stored db1 ''u1'' ''MillisecondsUsed'' = Some ''200''
    \<and> balance db1 ''u1'' ''MillisecondsRemaining'' = Some 800
    \<and> balance db1 ''u1'' ''MillisecondsUsed'' = Some 200
    \<and> RecordMilliseconds m 900 db1 = (None, db2)
    \<and> stored db2 ''u1'' ''MillisecondsRemaining'' = Some ''-100''
    \<and> balance db2 ''u1'' ''MillisecondsRemaining'' = Some (- 100)
    \<and> (\<forall>ms. RecordMilliseconds m ms db2 =
              (Some (Errorf ''Could not record time - no time left''), db2))"
proof -
  let ?m = "\<lparr>ID = ''u1''\<rparr>"
  let ?b0 = "[''MillisecondsRemaining'' \<mapsto> ''1000'', ''MillisecondsUsed'' \<mapsto> ''0'']"
  let ?b1 = "?b0(''MillisecondsRemaining'' \<mapsto> ''800'', ''MillisecondsUsed'' \<mapsto> ''200'')"
  let ?b2 = "?b1(''MillisecondsRemaining'' \<mapsto> ''-100'', ''MillisecondsUsed'' \<mapsto> ''1100'')"
  let ?db0 = "db(''u1'' \<mapsto> ?b0)"
  let ?db1 = "?db0(''u1'' \<mapsto> ?b1)"
  let ?db2 = "?db1(''u1'' \<mapsto> ?b2)"
  have n: "NewMeter ''u1'' 1000 db = ((Some ?m, None), ?db0)"
    using fresh NewMeter_fresh [of db "''u1''" 1000] by (simp add: eval_dec)
  have r1: "RecordMilliseconds ?m 200 ?db0 = (None, ?db1)"
    using RecordMilliseconds_entry [of ?db0 ?m ?b0 "''1000''" 1000 "''0''" 0 200]
    by (simp add: eval_dec)
  have r2: "RecordMilliseconds ?m 900 ?db1 = (None, ?db2)"
    using RecordMilliseconds_entry [of ?db1 ?m ?b1 "''800''" 800 "''200''" 200 900]
    by (simp add: eval_dec)
  have r3: "RecordMilliseconds ?m ms ?db2 =
              (Some (Errorf ''Could not record time - no time left''), ?db2)" for ms
    using RecordMilliseconds_entry [of ?db2 ?m ?b2 "''-100''" "- 100" "''1100''" 1100 ms]
    by (simp add: eval_dec)
  have s1: "stored ?db1 ''u1'' ''MillisecondsRemaining'' = Some ''800''"
    "stored ?db1 ''u1'' ''MillisecondsUsed'' = Some ''200''"
    "stored ?db2 ''u1'' ''MillisecondsRemaining'' = Some ''-100''"
    by (simp_all add: stored_def)
  have b1: "balance ?db1 ''u1'' ''MillisecondsRemaining'' = Some 800"
    "balance ?db1 ''u1'' ''MillisecondsUsed'' = Some 200"
    "balance ?db2 ''u1'' ''MillisecondsRemaining'' = Some (- 100)"
    by (simp_all add: balance_def stored_def eval_dec)
  show ?thesis
    using n r1 r2 r3 s1 b1 by blast
qed

theorem ledger_scenario_u1_witness:
  "Map.empty ''u1'' = None \<and>
   (\<exists>m db0 db1 db2.
      NewMeter ''u1'' 1000 Map.empty = ((Some m, None), db0)
    \<and> RecordMilliseconds m 200 db0 = (None, db1)
    \<and> stored db1 ''u1'' ''MillisecondsRemaining'' = Some ''800''
    \<and> stored db1 ''u1'' ''MillisecondsUsed'' = Some ''200''
    \<and> balance db1 ''u1'' ''MillisecondsRemaining'' = Some 800
    \<and> balance db1 ''u1'' ''MillisecondsUsed'' = Some 200
    \<and> RecordMilliseconds m 900 db1 = (None, db2)
    \<and> stored db2 ''u1'' ''MillisecondsRemaining'' = Some ''-100''
    \<and> balance db2 ''u1'' ''MillisecondsRemaining'' = Some (- 100)
    \<and> (\<forall>ms. RecordMilliseconds m ms db2 =
              (Some (Errorf ''Could not record time - no time left''), db2)))"
  using ledger_scenario_u1 [of Map.empty] by simp

text \<open>
  Whatever the store holds, and so also for an identity that has an entry,
  \<open>MillisecondsRemaining\<close> returns 0 and an error: the body of its transaction has no
  path that returns \<open>nil\<close>. \<open>Inspect\<close>, which calls it, fails likewise.
\<close>

lemma MillisecondsRemaining_always_fails:
  "\<exists>err. MillisecondsRemaining m db = (0, Some err)"
  by (auto simp: MillisecondsRemaining_def MillisecondsRemaining_tx_def View_def
      split: option.splits sum.splits)

lemma Inspect_always_fails: "\<exists>err. Inspect m db = (None, Some err)"
  using MillisecondsRemaining_always_fails [of m db] by (auto simp: Inspect_def)

text \<open>
  C3. The claim is that \<open>MillisecondsRemaining\<close> returns the stored remaining balance
  without error for an identity that has an entry. The code does not: after
  \<open>NewMeter "u1" 1000\<close> on an empty store the entry exists and holds 1000, and
  \<open>MillisecondsRemaining\<close> returns 0 with the error "Could not get time remaining".
\<close>

theorem MillisecondsRemaining_existing_entry_error:
  "stored (snd (NewMeter ''u1'' 1000 Map.empty)) ''u1'' ''MillisecondsRemaining'' = Some ''1000''
   \<and> MillisecondsRemaining \<lparr>ID = ''u1''\<rparr> (snd (NewMeter ''u1'' 1000 Map.empty)) =
       (0, Some (Errorf ''Could not get time remaining''))"
  by (simp add: NewMeter_fresh stored_def MillisecondsRemaining_def MillisecondsRemaining_tx_def
      View_def eval_dec)

text \<open>
  C10. For an identity that already has a ledger entry, \<open>NewMeter\<close> returns a meter for
  that identity and no error, and the store, hence the entry and its two fields, is
  unchanged, whatever starting balance was passed.
\<close>

theorem NewMeter_existing_entry:
  "db ident = Some b \<Longrightarrow> NewMeter ident remainingMs db = ((Some \<lparr>ID = ident\<rparr>, None), db)"
  by (simp add: NewMeter_def NewMeter_tx_def Update_def CreateBucket_def)

theorem NewMeter_existing_entry_witness:
  "[''u1'' \<mapsto> [''MillisecondsRemaining'' \<mapsto> ''800'', ''MillisecondsUsed'' \<mapsto> ''200'']] ''u1'' =
     Some [''MillisecondsRemaining'' \<mapsto> ''800'', ''MillisecondsUsed'' \<mapsto> ''200'']
   \<and> NewMeter ''u1'' 5000
       [''u1'' \<mapsto> [''MillisecondsRemaining'' \<mapsto> ''800'', ''MillisecondsUsed'' \<mapsto> ''200'']] =
     ((Some \<lparr>ID = ''u1''\<rparr>, None),
      [''u1'' \<mapsto> [''MillisecondsRemaining'' \<mapsto> ''800'', ''MillisecondsUsed'' \<mapsto> ''200'']])"
  using NewMeter_existing_entry [of
      "[''u1'' \<mapsto> [''MillisecondsRemaining'' \<mapsto> ''800'', ''MillisecondsUsed'' \<mapsto> ''200'']]"
      "''u1''" "[''MillisecondsRemaining'' \<mapsto> ''800'', ''MillisecondsUsed'' \<mapsto> ''200'']" 5000]
  by simp

section \<open>Properties of the predicate filter\<close>

lemma WithName_loop_iff: "WithName_loop n names \<longleftrightarrow> ''/'' @ n \<in> set names"
  by (induction names) auto

text \<open>
  C9. \<open>WithName n\<close> matches a descriptor exactly when one of the descriptor's name aliases
  is the text "/" followed by \<open>n\<close>; an alias that only contains \<open>n\<close>, or is \<open>n\<close> without
  the slash, is not such a text and gives no match.
\<close>

theorem WithName_exact_alias: "WithName n d \<longleftrightarrow> ''/'' @ n \<in> set (Names d)"
  by (simp add: WithName_def WithName_loop_iff)

section \<open>Properties of the orchestrator\<close>

lemmas fixtures = golem_container_def other_container_def fixed_docker_def example_env_def

lemma nth0_hd: "length xs = Suc 0 \<Longrightarrow> xs ! 0 = hd xs"
  by (cases xs) auto

text \<open>
  What \<open>Kill\<close> does once it has a client and the listing of the running containers
  (\<open>All: false\<close>) has succeeded; without a client it issues no call, and after a failed
  listing no further call.
\<close>

lemma Kill_trace:
  assumes "NewClientFromEnv d = None"
    and "ListContainers_result d (h @ [ListContainers False]) = Inr cs"
  shows "Kill d matcher removeContainer destroyData h =
     (if length (filter matcher cs) \<noteq> 1
      then (Some (Errorf (''Expected 1 container to match name, got ''
                           @ FormatUint (length (filter matcher cs)))),
            h @ [ListContainers False])
      else
        (let target = APIContainers_ID (hd (filter matcher cs));
             h2 = h @ [ListContainers False, KillContainer target];
             h3 = h2 @ [RemoveContainer target True destroyData]
         in if KillContainer_result d h2 \<noteq> None then (KillContainer_result d h2, h2)
            else if removeContainer then (RemoveContainer_result d h3, h3)
            else (None, h2)))"
proof (cases "length (filter matcher cs) = 1")
  case False
  with assms show ?thesis by (simp add: Kill_def List_def)
next
  case True
  then have "filter matcher cs ! 0 = hd (filter matcher cs)" by (simp add: nth0_hd)
  with True assms show ?thesis
    by (cases "KillContainer_result d (h @ [ListContainers False,
            KillContainer (APIContainers_ID (hd (filter matcher cs)))])";
        cases "RemoveContainer_result d (h @ [ListContainers False,
            KillContainer (APIContainers_ID (hd (filter matcher cs))),
            RemoveContainer (APIContainers_ID (hd (filter matcher cs))) True destroyData])")
      (simp_all add: Kill_def List_def Let_def)
qed

lemma Kill_no_client:
  "NewClientFromEnv d = Some err \<Longrightarrow> Kill d matcher removeContainer destroyData h = (Some err, h)"
  by (simp add: Kill_def)

lemma Kill_list_error:
  "NewClientFromEnv d = None \<Longrightarrow> ListContainers_result d (h @ [ListContainers False]) = Inl err \<Longrightarrow>
   Kill d matcher removeContainer destroyData h = (Some err, h @ [ListContainers False])"
  by (simp add: Kill_def List_def)

text \<open>
  C7. Let the runtime list the containers \<open>cs\<close> that have not exited. When the number of
  those that match the predicate is not one (none, or two or more), \<open>Kill\<close> returns an
  error and the listing is the only call it has issued: no container is killed or removed.
  When exactly one matches, \<open>Kill\<close> issues the kill for that container's identifier;
  if the runtime reports the kill as failed, that error is returned and nothing is removed;
  otherwise, if removal was requested, it issues the removal of the same container with
  \<open>Force\<close> set and \<open>RemoveVolumes\<close> equal to \<open>destroyData\<close> and returns its result, and if
  removal was not requested it issues no removal and returns no error.
\<close>

theorem Kill_exactly_one:
  assumes "NewClientFromEnv d = None"
    and "ListContainers_result d (h @ [ListContainers False]) = Inr cs"
  shows "Kill d matcher removeContainer destroyData h =
     (if length (filter matcher cs) \<noteq> 1
      then (Some (Errorf (''Expected 1 container to match name, got ''
                           @ FormatUint (length (filter matcher cs)))),
            h @ [ListContainers False])
      else
        (let target = APIContainers_ID (hd (filter matcher cs));
             h2 = h @ [ListContainers False, KillContainer target];
             h3 = h2 @ [RemoveContainer target True destroyData]
         in if KillContainer_result d h2 \<noteq> None then (KillContainer_result d h2, h2)
            else if removeContainer then (RemoveContainer_result d h3, h3)
            else (None, h2)))"
  using assms by (rule Kill_trace)

theorem Kill_exactly_one_witness:
  "Kill (fixed_docker (Inl (ExternalError ''unused'')) [] (Inl (ExternalError ''unused'')))
      (WithName ''golem'') True False [] =
     (Some (Errorf ''Expected 1 container to match name, got 0''), [ListContainers False])
   \<and> Kill (fixed_docker (Inl (ExternalError ''unused'')) [golem_container, other_container]
             (Inl (ExternalError ''unused'')))
      (WithState ''running'') True True [] =
     (Some (Errorf ''Expected 1 container to match name, got 2''), [ListContainers False])
   \<and> Kill (fixed_docker (Inl (ExternalError ''unused'')) [golem_container, other_container]
             (Inl (ExternalError ''unused'')))
      (WithName ''golem'') True False [] =
     (None, [ListContainers False, KillContainer ''abc123'', RemoveContainer ''abc123'' True False])
   \<and> Kill (fixed_docker (Inl (ExternalError ''unused'')) [golem_container, other_container]
             (Inl (ExternalError ''unused'')))
      (WithName ''golem'') False False [] =
     (None, [ListContainers False, KillContainer ''abc123''])"
  using Kill_exactly_one [of "fixed_docker (Inl (ExternalError ''unused'')) [] (Inl (ExternalError ''unused''))"
      "[]" "[]" "WithName ''golem''" True False]
    Kill_exactly_one [of "fixed_docker (Inl (ExternalError ''unused'')) [golem_container, other_container]
             (Inl (ExternalError ''unused''))"
      "[]" "[golem_container, other_container]" "WithState ''running''" True True]
    Kill_exactly_one [of "fixed_docker (Inl (ExternalError ''unused'')) [golem_container, other_container]
             (Inl (ExternalError ''unused''))"
      "[]" "[golem_container, other_container]" "WithName ''golem''" True False]
    Kill_exactly_one [of "fixed_docker (Inl (ExternalError ''unused'')) [golem_container, other_container]
             (Inl (ExternalError ''unused''))"
      "[]" "[golem_container, other_container]" "WithName ''golem''" False False]
  by (simp add: fixtures WithName_def WithState_def FormatUint.simps digit_char_def Let_def)

text \<open>
  The part of \<open>run\<close> that follows the resolution of the container identifier always
  issues the start of that identifier first.
\<close>

lemma run_start_first_call:
  "\<exists>rest. snd (run_start d container cid h) = h @ StartContainer cid # rest"
  by (auto simp: run_start_def Let_def split: option.splits sum.splits)

lemma run_start_inspect_fails:
  assumes "StartContainer_result d (h @ [StartContainer cid]) = None"
    and "InspectContainer_result d (h @ [StartContainer cid, InspectContainer cid]) = Inl err"
  shows "run_start d container cid h =
           ((container, None), h @ [StartContainer cid, InspectContainer cid])"
  using assms by (simp add: run_start_def)

lemma run_create_fails:
  assumes "PullImage_result d (h @ [PullImage repository tag]) = None"
    and "CreateContainer_result d
           (h @ [PullImage repository tag,
                 CreateContainer (run_options name repository tag ports mounts labels)]) = Inl err"
    and "ListContainers_result d
           (h @ [PullImage repository tag,
                 CreateContainer (run_options name repository tag ports mounts labels),
                 ListContainers True]) = Inr cs"
  shows "run d name repository tag ports mounts labels restart h =
     (let h2 = h @ [PullImage repository tag,
                    CreateContainer (run_options name repository tag ports mounts labels)];
          h3 = h2 @ [ListContainers True];
          found = filter (WithName name) cs
      in if \<not> restart then ((None, Some err), h2)
         else if length found \<noteq> 1
         then ((None, Some (Errorf (''Could not create nor find container with name '' @ name))), h3)
         else run_start d None (APIContainers_ID (hd found)) h3)"
  using assms
  by (auto simp: run_def List_def Let_def nth0_hd)

text \<open>
  C5. Let the image pull succeed and the creation fail with \<open>err\<close>. Without
  restart-recovery \<open>run\<close> returns \<open>err\<close> and issues no further call. With it, \<open>run\<close> lists
  all containers, the stopped ones included (\<open>All: true\<close>), and keeps those that match
  \<open>WithName name\<close>; when their number is not one it returns the error "Could not create
  nor find container with name ..." and issues no further call; when it is one, \<open>run\<close>
  continues with that container's identifier, and the next call it issues is the start of
  that identifier.
\<close>

theorem run_creation_failure:
  assumes "PullImage_result d (h @ [PullImage repository tag]) = None"
    and "CreateContainer_result d
           (h @ [PullImage repository tag,
                 CreateContainer (run_options name repository tag ports mounts labels)]) = Inl err"
    and "ListContainers_result d
           (h @ [PullImage repository tag,
                 CreateContainer (run_options name repository tag ports mounts labels),
                 ListContainers True]) = Inr cs"
  shows "run d name repository tag ports mounts labels restart h =
     (let h2 = h @ [PullImage repository tag,
                    CreateContainer (run_options name repository tag ports mounts labels)];
          h3 = h2 @ [ListContainers True];
          found = filter (WithName name) cs
      in if \<not> restart then ((None, Some err), h2)
         else if length found \<noteq> 1
         then ((None, Some (Errorf (''Could not create nor find container with name '' @ name))), h3)
         else run_start d None (APIContainers_ID (hd found)) h3)
   \<and> (\<exists>rest. snd (run_start d None (APIContainers_ID (hd (filter (WithName name) cs)))
                    (h @ [PullImage repository tag,
                          CreateContainer (run_options name repository tag ports mounts labels),
                          ListContainers True])) =
               h @ [PullImage repository tag,
                    CreateContainer (run_options name repository tag ports mounts labels),
                    ListContainers True,
                    StartContainer (APIContainers_ID (hd (filter (WithName name) cs)))] @ rest)"
  using run_create_fails [OF assms, of restart]
    run_start_first_call [of d None "APIContainers_ID (hd (filter (WithName name) cs))"
      "h @ [PullImage repository tag,
            CreateContainer (run_options name repository tag ports mounts labels),
            ListContainers True]"]
  by simp

theorem run_creation_failure_witness:
  "run (fixed_docker (Inl (ExternalError ''container already exists'')) [golem_container, other_container]
          (Inr \<lparr>Container_ID = ''abc123'', Running = True\<rparr>))
     ''golem'' ''webstrates/golem'' ''latest'' [] [] [] False [] =
     ((None, Some (ExternalError ''container already exists'')),
      [PullImage ''webstrates/golem'' ''latest'',
       CreateContainer (run_options ''golem'' ''webstrates/golem'' ''latest'' [] [] [])])
   \<and> run (fixed_docker (Inl (ExternalError ''container already exists'')) [other_container]
          (Inr \<lparr>Container_ID = ''abc123'', Running = True\<rparr>))
     ''golem'' ''webstrates/golem'' ''latest'' [] [] [] True [] =
     ((None, Some (Errorf ''Could not create nor find container with name golem'')),
      [PullImage ''webstrates/golem'' ''latest'',
       CreateContainer (run_options ''golem'' ''webstrates/golem'' ''latest'' [] [] []),
       ListContainers True])
   \<and> run (fixed_docker (Inl (ExternalError ''container already exists'')) [golem_container, other_container]
          (Inr \<lparr>Container_ID = ''abc123'', Running = True\<rparr>))
     ''golem'' ''webstrates/golem'' ''latest'' [] [] [] True [] =
     ((Some \<lparr>Container_ID = ''abc123'', Running = True\<rparr>, None),
      [PullImage ''webstrates/golem'' ''latest'',
       CreateContainer (run_options ''golem'' ''webstrates/golem'' ''latest'' [] [] []),
       ListContainers True, StartContainer ''abc123'', InspectContainer ''abc123''])"
  using run_creation_failure [of
      "fixed_docker (Inl (ExternalError ''container already exists'')) [golem_container, other_container]
          (Inr \<lparr>Container_ID = ''abc123'', Running = True\<rparr>)"
      "[]" "''webstrates/golem''" "''latest''" "''golem''" "[]" "[]" "[]"
      "ExternalError ''container already exists''" "[golem_container, other_container]" False]
    run_creation_failure [of
      "fixed_docker (Inl (ExternalError ''container already exists'')) [other_container]
          (Inr \<lparr>Container_ID = ''abc123'', Running = True\<rparr>)"
      "[]" "''webstrates/golem''" "''latest''" "''golem''" "[]" "[]" "[]"
      "ExternalError ''container already exists''" "[other_container]" True]
    run_creation_failure [of
      "fixed_docker (Inl (ExternalError ''container already exists'')) [golem_container, other_container]
          (Inr \<lparr>Container_ID = ''abc123'', Running = True\<rparr>)"
      "[]" "''webstrates/golem''" "''latest''" "''golem''" "[]" "[]" "[]"
      "ExternalError ''container already exists''" "[golem_container, other_container]" True]
  by (simp add: fixtures WithName_def run_start_def Let_def)

text \<open>
  When the start succeeds and the inspection fails, \<open>run\<close> returns no error and the
  value of its variable \<open>container\<close>: the handle of the created container when the
  creation succeeded, and the nil handle when the creation failed and the container was
  found by its name.
\<close>

lemma run_created_inspect_fails:
  assumes "PullImage_result d (h @ [PullImage repository tag]) = None"
    and "CreateContainer_result d
           (h @ [PullImage repository tag,
                 CreateContainer (run_options name repository tag ports mounts labels)]) = Inr c"
    and "StartContainer_result d
           (h @ [PullImage repository tag,
                 CreateContainer (run_options name repository tag ports mounts labels),
                 StartContainer (Container_ID c)]) = None"
    and "InspectContainer_result d
           (h @ [PullImage repository tag,
                 CreateContainer (run_options name repository tag ports mounts labels),
                 StartContainer (Container_ID c), InspectContainer (Container_ID c)]) = Inl err"
  shows "fst (run d name repository tag ports mounts labels restart h) = (Some c, None)"
  using assms by (simp add: run_def run_start_def)

lemma run_recovered_inspect_fails:
  assumes "PullImage_result d (h @ [PullImage repository tag]) = None"
    and "CreateContainer_result d
           (h @ [PullImage repository tag,
                 CreateContainer (run_options name repository tag ports mounts labels)]) = Inl cerr"
    and "ListContainers_result d
           (h @ [PullImage repository tag,
                 CreateContainer (run_options name repository tag ports mounts labels),
                 ListContainers True]) = Inr cs"
    and "filter (WithName name) cs = [a]"
    and "StartContainer_result d
           (h @ [PullImage repository tag,
                 CreateContainer (run_options name repository tag ports mounts labels),
                 ListContainers True, StartContainer (APIContainers_ID a)]) = None"
    and "InspectContainer_result d
           (h @ [PullImage repository tag,
                 CreateContainer (run_options name repository tag ports mounts labels),
                 ListContainers True, StartContainer (APIContainers_ID a),
                 InspectContainer (APIContainers_ID a)]) = Inl err"
  shows "fst (run d name repository tag ports mounts labels True h) = (None, None)"
  using assms by (simp add: run_def run_start_def List_def)

text \<open>
  C6. The claim is that after a successful start and a failed inspection \<open>run\<close> returns
  a nil error together with the best available container handle. On the recovery path it
  does not: when the creation fails because the name is taken, restart-recovery finds the
  one container of that name, its start succeeds and its inspection fails, \<open>run\<close> returns
  the nil handle together with the nil error.
\<close>

theorem run_recovered_inspect_failure_nil_handle:
  "run (fixed_docker (Inl (ExternalError ''container already exists'')) [golem_container]
          (Inl (ExternalError ''inspect failed'')))
     ''golem'' ''webstrates/golem'' ''latest'' [] [] [] True [] =
   ((None, None),
    [PullImage ''webstrates/golem'' ''latest'',
     CreateContainer (run_options ''golem'' ''webstrates/golem'' ''latest'' [] [] []),
     ListContainers True, StartContainer ''abc123'', InspectContainer ''abc123''])"
  by (simp add: fixtures run_def List_def run_start_def WithName_def)

section \<open>Properties of the daemonized run and the file loader\<close>

text \<open>
  Both entries of the map literal of \<open>RunDaemonized\<close> have the key \<open>hostdir\<close>, so the map
  holds the second one only, and the creation request mounts the host directory at
  "/minion" and nowhere else, for every name.
\<close>

lemma RunDaemonized_mounts_eq: "RunDaemonized_mounts hostdir name = [(hostdir, ''/minion'')]"
  by (simp add: RunDaemonized_mounts_def)

lemma RunDaemonized_options:
  "run_options name repository tag ports (RunDaemonized_mounts hostdir name) labels =
   \<lparr>Name = name, Image = repository @ '':'' @ tag, Config_Labels = labels,
    ExposedPorts = fst (run_ports ports),
    Mounts = [\<lparr>Source = hostdir, Destination = ''/minion''\<rparr>],
    AttachStdout = True, AttachStderr = True, AttachStdin = True, OpenStdin = True, Tty = True,
    PortBindings = snd (run_ports ports),
    Binds = [hostdir @ '':/minion'']\<rparr>"
  by (simp add: RunDaemonized_mounts_def run_options_def run_mounts_def split: prod.splits)

text \<open>
  C4. The claim is that the mount configuration passed to the base run holds both the
  path "/<name>" and the path "/minion" for the host directory. It does not: for the
  daemon "golem" with the mounts root "/mounts", the map built by \<open>RunDaemonized\<close> has the
  single entry "/mounts/golem" to "/minion", and the creation request that \<open>run\<close> issues
  has that single mount and that single bind; "/golem" is not mounted.
\<close>

theorem RunDaemonized_single_mount:
  "RunDaemonized_mounts ''/mounts/golem'' ''golem'' = [(''/mounts/golem'', ''/minion'')]
   \<and> RunDaemonized
     (fixed_docker (Inr \<lparr>Container_ID = ''abc123'', Running = False\<rparr>) []
        (Inr \<lparr>Container_ID = ''abc123'', Running = True\<rparr>))
     (example_env (\<lambda>r. (None, Some (ExternalError ''unused''))))
     ''golem'' ''webstrates/golem'' ''latest'' [] [] [] False
     (\<lparr>files = Map.empty, logged = []\<rparr>, []) =
   (Returned (Some \<lparr>Container_ID = ''abc123'', Running = True\<rparr>, None),
    \<lparr>files = Map.empty, logged = []\<rparr>,
    [PullImage ''webstrates/golem'' ''latest'',
     CreateContainer
       \<lparr>Name = ''golem'', Image = ''webstrates/golem:latest'', Config_Labels = [],
        ExposedPorts = [], Mounts = [\<lparr>Source = ''/mounts/golem'', Destination = ''/minion''\<rparr>],
        AttachStdout = True, AttachStderr = True, AttachStdin = True, OpenStdin = True,
        Tty = True, PortBindings = [], Binds = [''/mounts/golem:/minion'']\<rparr>,
     StartContainer ''abc123'', InspectContainer ''abc123''])"
  by (simp add: fixtures RunDaemonized_def RunDaemonized_mounts_def LoadFiles_def run_def
      run_options_def run_mounts_def run_ports_def run_start_def)

text \<open>
  A goroutine of the file loader panics when the request cannot be created and when
  the HTTP client returns no response; a file list with such an entry therefore never
  lets \<open>LoadFiles\<close> return \<open>nil\<close>: it panics, or a write error of a literal entry has ended
  the loop before. A write error of a literal entry is returned at once.
\<close>

lemma LoadFiles_fetch_no_request:
  "NewRequest_error env (url_String u) = Some err \<Longrightarrow>
   fst (LoadFiles_fetch env dir name u s) = Panicked"
  by (simp add: LoadFiles_fetch_def)

lemma LoadFiles_fetch_no_response:
  assumes "\<And>r. fst (Do env r) = None"
  shows "fst (LoadFiles_fetch env dir name u s) = Panicked"
proof (cases "NewRequest_error env (url_String u)")
  case (Some err)
  then show ?thesis by (simp add: LoadFiles_fetch_def)
next
  case None
  let ?r = "\<lparr>request_URL = url_String u,
             BasicAuth = (if url_Hostname u = ''webstrates.cs.au.dk''
                             \<or> url_Hostname u = ''hiraku.cs.au.dk''
                          then Some (''web'', ''strate'') else None)\<rparr>"
  obtain e where "Do env ?r = (None, e)" using assms [of ?r] by (cases "Do env ?r") auto
  with None show ?thesis by (simp add: LoadFiles_fetch_def)
qed

lemma LoadFiles_goroutines_panic:
  assumes "(name, u) \<in> set started"
    and "\<And>s. fst (LoadFiles_fetch env dir name u s) = Panicked"
  shows "fst (LoadFiles_goroutines env dir started s) = Panicked"
  using assms(1)
proof (induction started arbitrary: s)
  case Nil
  then show ?case by simp
next
  case (Cons t rest)
  obtain n' u' where t: "t = (n', u')" by (cases t)
  obtain r s1 where f: "LoadFiles_fetch env dir n' u' s = (r, s1)"
    by (cases "LoadFiles_fetch env dir n' u' s")
  show ?case
  proof (cases r)
    case Panicked
    with t f show ?thesis by simp
  next
    case (Returned x)
    with f assms(2) [of s] t have "(name, u) \<noteq> t" by auto
    with Cons.prems have "(name, u) \<in> set rest" by simp
    then have "fst (LoadFiles_goroutines env dir rest s1) = Panicked" by (rule Cons.IH)
    with t f Returned show ?thesis by simp
  qed
qed

lemma LoadFiles_loop_url:
  "LoadFiles_url env content = Some u \<Longrightarrow>
   LoadFiles_loop env dir ((name, content) # rest) started s =
     LoadFiles_loop env dir rest (started @ [(name, u)]) s"
  by simp

lemma LoadFiles_loop_literal:
  "LoadFiles_url env content = None \<Longrightarrow>
   LoadFiles_loop env dir ((name, content) # rest) started s =
     (case WriteFile_error env (Join env dir name) of
        Some err \<Rightarrow>
          ((Some err, started),
           logline Warn ''Could not write file to tmp dir''
             (logline Info ''Writing provided content to tmp dir'' s))
      | None \<Rightarrow>
          LoadFiles_loop env dir rest started
            ((logline Info ''Writing provided content to tmp dir'' s)
               \<lparr>files := (files (logline Info ''Writing provided content to tmp dir'' s))
                          (Join env dir name \<mapsto> content)\<rparr>))"
  by (simp add: WriteFile_def split: option.splits)

lemma LoadFiles_loop_mono:
  "LoadFiles_loop env dir fs started s = ((err, started'), s') \<Longrightarrow> set started \<subseteq> set started'"
proof (induction fs arbitrary: started s)
  case Nil
  then show ?case by simp
next
  case (Cons e rest)
  obtain n c where e: "e = (n, c)" by (cases e)
  show ?case
  proof (cases "LoadFiles_url env c")
    case (Some u)
    from Cons.prems have "LoadFiles_loop env dir rest (started @ [(n, u)]) s = ((err, started'), s')"
      unfolding e LoadFiles_loop_url [OF Some] .
    then have "set (started @ [(n, u)]) \<subseteq> set started'" by (rule Cons.IH)
    then show ?thesis by simp
  next
    case None
    note eq = Cons.prems [unfolded e LoadFiles_loop_literal [OF None]]
    show ?thesis
    proof (cases "WriteFile_error env (Join env dir n)")
      case (Some werr)
      with eq show ?thesis by simp
    next
      case None
      with eq show ?thesis by (simp add: Cons.IH)
    qed
  qed
qed

lemma LoadFiles_loop_started:
  assumes "(name, content) \<in> set fs" and "LoadFiles_url env content = Some u"
  shows "LoadFiles_loop env dir fs started s = ((None, started'), s') \<Longrightarrow>
         (name, u) \<in> set started'"
  using assms(1)
proof (induction fs arbitrary: started s)
  case Nil
  then show ?case by simp
next
  case (Cons e rest)
  obtain n c where e: "e = (n, c)" by (cases e)
  show ?case
  proof (cases "LoadFiles_url env c")
    case (Some u')
    have l: "LoadFiles_loop env dir rest (started @ [(n, u')]) s = ((None, started'), s')"
      using Cons.prems(1) unfolding e LoadFiles_loop_url [OF Some] .
    show ?thesis
    proof (cases "e = (name, content)")
      case True
      with e Some assms(2) have "u' = u" by simp
      moreover have "set (started @ [(n, u')]) \<subseteq> set started'"
        using l by (rule LoadFiles_loop_mono)
      ultimately show ?thesis using True e by auto
    next
      case False
      with Cons.prems(2) have "(name, content) \<in> set rest" by simp
      with l show ?thesis by (rule Cons.IH)
    qed
  next
    case None
    with assms(2) e have "e \<noteq> (name, content)" by auto
    with Cons.prems(2) have mem: "(name, content) \<in> set rest" by simp
    note eq = Cons.prems(1) [unfolded e LoadFiles_loop_literal [OF None]]
    show ?thesis
    proof (cases "WriteFile_error env (Join env dir n)")
      case (Some werr)
      with eq show ?thesis by simp
    next
      case None
      with eq mem show ?thesis by (simp add: Cons.IH)
    qed
  qed
qed

lemma LoadFiles_never_completes:
  assumes "(name, content) \<in> set fs" and "LoadFiles_url env content = Some u"
    and "\<And>s. fst (LoadFiles_fetch env dir name u s) = Panicked"
  shows "fst (LoadFiles env dir fs s) \<noteq> Returned None"
proof -
  obtain err started s1 where l: "LoadFiles_loop env dir fs [] s = ((err, started), s1)"
    by (metis surj_pair)
  obtain r s2 where g: "LoadFiles_goroutines env dir started s1 = (r, s2)"
    by (metis surj_pair)
  show ?thesis
  proof (cases err)
    case (Some e)
    with l g show ?thesis by (cases r) (simp_all add: LoadFiles_def)
  next
    case None
    with l assms(1,2) have "(name, u) \<in> set started" by (simp add: LoadFiles_loop_started)
    then have "fst (LoadFiles_goroutines env dir started s1) = Panicked"
      using assms(3) by (rule LoadFiles_goroutines_panic)
    with l g show ?thesis by (simp add: LoadFiles_def)
  qed
qed

lemma LoadFiles_literal_write_error:
  assumes "LoadFiles_url env content = None"
    and "WriteFile_error env (Join env dir name) = Some err"
  shows "LoadFiles env dir ((name, content) # rest) s =
           (Returned (Some err),
            logline Warn ''Could not write file to tmp dir''
              (logline Info ''Writing provided content to tmp dir'' s))"
  using assms by (simp add: LoadFiles_def WriteFile_def)

text \<open>
  C8. The claim is that a fetch failure of a URL entry is logged, that the entry is
  skipped and that it does not keep the other entries from being written. The code logs
  the failure and then panics: with the entries "a.txt" (the text "hello") and "b.txt"
  (the URL "http://example/x") and an HTTP client that cannot connect, \<open>LoadFiles\<close> does
  not return; the warning is the last line logged.
\<close>

theorem LoadFiles_fetch_failure_panics:
  "LoadFiles (example_env (\<lambda>r. (None, Some (ExternalError ''dial tcp: connection refused''))))
     ''/mounts/golem'' [(''a.txt'', ''hello''), (''b.txt'', ''http://example/x'')]
     \<lparr>files = Map.empty, logged = []\<rparr> =
   (Panicked,
    \<lparr>files = [''/mounts/golem/a.txt'' \<mapsto> ''hello''],
     logged = [(Info, ''Writing provided content to tmp dir''),
               (Warn, ''Could not GET content to store in container'')]\<rparr>)"
  by (simp add: fixtures LoadFiles_def LoadFiles_url_def LoadFiles_fetch_def WriteFile_def
      logline_def HasPrefix_def)

end
